theory Spec2Isabelle
  imports Main
begin

section \<open>Errors raised by the request executor\<close>

text \<open>
  The value caught in \<^verbatim>\<open>AkeneoApi.request\<close> is duck-typed in the source
  (\<^verbatim>\<open>error: any\<close>). The model keeps the properties the code inspects: the
  \<^verbatim>\<open>isAxiosError\<close> marker, the truthiness of \<^verbatim>\<open>error.request\<close>, the optional
  \<^verbatim>\<open>error.response\<close> with its optional numeric \<^verbatim>\<open>status\<close> and its headers, the
  message, and everything else as an opaque payload.
\<close>

record axios_response =
  status :: "int option"
  response_headers :: "(string \<times> string) list"

record 'd js_error =
  isAxiosError :: bool
  message :: string
  error_request :: bool
  error_response :: "axios_response option"
  payload :: 'd

text \<open>
  \<^verbatim>\<open>AkeneoError\<close>: message, diagnostic data, optional status and the marker
  \<^verbatim>\<open>isAkeneoError = true\<close>.
\<close>

record 'x AkeneoError =
  ae_message :: string
  ae_data :: 'x
  ae_status :: "int option"
  isAkeneoError :: bool

text \<open>What a method of the library can throw: an \<^verbatim>\<open>AkeneoError\<close> or the caught value as it is.\<close>

datatype ('d, 'x) thrown = Akeneo "'x AkeneoError" | Raw "'d js_error"

text \<open>
  \<^verbatim>\<open>AkeneoError.fromAxiosError\<close>. The diagnostic data is built with the masking
  utilities of \<^verbatim>\<open>lib/utils\<close>; they enter as the parameter \<open>mk_data\<close>.
  The status is \<^verbatim>\<open>e.response?.status\<close>.
\<close>

definition fromAxiosError :: "('d js_error \<Rightarrow> 'x) \<Rightarrow> 'd js_error \<Rightarrow> 'x AkeneoError" where
  "fromAxiosError mk_data e =
     \<lparr>ae_message = message e,
      ae_data = mk_data e,
      ae_status = (case error_response e of None \<Rightarrow> None | Some r \<Rightarrow> status r),
      isAkeneoError = True\<rparr>"

definition transformError :: "('d js_error \<Rightarrow> 'x) \<Rightarrow> 'd js_error \<Rightarrow> ('d, 'x) thrown" where
  "transformError mk_data lastError =
     (if isAxiosError lastError then Akeneo (fromAxiosError mk_data lastError)
      else Raw lastError)"

text \<open>
  The status codes that allow a retry: InternalServerError, NotImplemented, BadGateway,
  ServiceUnavailable, GatewayTimeout.
\<close>

definition RETRYABLE_STATUS_CODES :: "int list" where
  "RETRYABLE_STATUS_CODES = [500, 501, 502, 503, 504]"

text \<open>
  \<^verbatim>\<open>isRetryableError\<close>: three tests in the order of the source. A response without a
  \<^verbatim>\<open>status\<close> is not in the list.
\<close>

definition isRetryableError :: "'d js_error \<Rightarrow> bool" where
  "isRetryableError error =
     (if \<not> isAxiosError error then True
      else if \<not> error_request error then True
      else (case error_response error of
              None \<Rightarrow> True
            | Some r \<Rightarrow>
                (case status r of
                   None \<Rightarrow> False
                 | Some s \<Rightarrow> s \<in> set RETRYABLE_STATUS_CODES)))"


section \<open>The request executor\<close>

record AkeneoRetryConfig =
  delayMs :: int
  maxRetries :: int
  max429Retries :: "int option"
  jitter :: "bool option"

text \<open>Default retry configuration: no retry at all.\<close>

definition DEFAULT_RETRY_CONFIG :: AkeneoRetryConfig where
  "DEFAULT_RETRY_CONFIG = \<lparr>delayMs = 0, maxRetries = 0, max429Retries = None, jitter = None\<rparr>"

text \<open>The constructor of \<^verbatim>\<open>AkeneoApi\<close>: \<^verbatim>\<open>this.retry = config.retry || DEFAULT_RETRY_CONFIG\<close>.\<close>

definition instance_retry :: "AkeneoRetryConfig option \<Rightarrow> AkeneoRetryConfig" where
  "instance_retry config_retry =
     (case config_retry of Some c \<Rightarrow> c | None \<Rightarrow> DEFAULT_RETRY_CONFIG)"

datatype http_method = GET | POST | PATCH | DELETE | HEAD

text \<open>
  A header object maps a key to a value. The defaults of the transport hold nested
  objects (\<^verbatim>\<open>common\<close>, \<^verbatim>\<open>get\<close>, \<^verbatim>\<open>post\<close>, ...) beside strings.
\<close>

datatype header_value = HStr string | HObj "(string \<times> string) list"

type_synonym header_map = "string \<rightharpoonup> header_value"

text \<open>\<^verbatim>\<open>FetchOptions\<close>: every optional property is an option.\<close>

record ('p, 't) FetchOptions =
  path :: "string option"
  url :: "string option"
  headers :: "header_map option"
  http_method :: http_method
  params :: "'p option"
  data :: "'t option"
  retry :: "AkeneoRetryConfig option"

text \<open>
  The object handed to the transport: \<^verbatim>\<open>{ ...opts, url, headers }\<close>. A
  \<^verbatim>\<open>path\<close> is deleted from \<^verbatim>\<open>opts\<close> only when it is truthy, so an
  empty path stays.
\<close>

record ('p, 't) request_config =
  rc_path :: "string option"
  rc_url :: string
  rc_headers :: header_map
  rc_method :: http_method
  rc_params :: "'p option"
  rc_data :: "'t option"
  rc_retry :: "AkeneoRetryConfig option"

record AkeneoGrant =
  accessToken :: string
  refreshToken :: "string option"
  expiresIn :: int
  expiresAt :: int

text \<open>\<^verbatim>\<open>getRetryConfig\<close>: \<^verbatim>\<open>methodRetryConfig || this.retry\<close>.\<close>

definition getRetryConfig :: "AkeneoRetryConfig \<Rightarrow> AkeneoRetryConfig option \<Rightarrow> AkeneoRetryConfig" where
  "getRetryConfig this_retry methodRetryConfig =
     (case methodRetryConfig of Some c \<Rightarrow> c | None \<Rightarrow> this_retry)"

text \<open>
  The headers of \<^verbatim>\<open>getRequestOptions\<close>, an object spread: the defaults of the
  transport, then \<^verbatim>\<open>Authorization\<close>, then the headers of the caller. A later key
  replaces an earlier one, which is \<open>++\<close> on maps.
\<close>

definition request_headers :: "header_map \<Rightarrow> AkeneoGrant \<Rightarrow> header_map option \<Rightarrow> header_map" where
  "request_headers defaults grant hs =
     defaults
       ++ [''Authorization'' \<mapsto> HStr (''Bearer '' @ accessToken grant)]
       ++ (case hs of None \<Rightarrow> Map.empty | Some h \<Rightarrow> h)"

text \<open>
  \<^verbatim>\<open>getRequestOptions\<close> after the grant has been awaited. The URL is
  \<^verbatim>\<open>options.url ?? `${this.endpoint}${options.path}`\<close>; a missing path is
  interpolated as the text \<^verbatim>\<open>undefined\<close>.
\<close>

definition getRequestOptions ::
  "string \<Rightarrow> header_map \<Rightarrow> AkeneoGrant \<Rightarrow> ('p, 't) FetchOptions \<Rightarrow> ('p, 't) request_config" where
  "getRequestOptions endpoint defaults grant options =
     \<lparr>rc_path = (case path options of Some [] \<Rightarrow> Some [] | _ \<Rightarrow> None),
      rc_url = (case url options of
                  Some u \<Rightarrow> u
                | None \<Rightarrow> endpoint @ (case path options of None \<Rightarrow> ''undefined'' | Some p \<Rightarrow> p)),
      rc_headers = request_headers defaults grant (headers options),
      rc_method = http_method options,
      rc_params = params options,
      rc_data = data options,
      rc_retry = retry options\<rparr>"

text \<open>
  What one call of \<^verbatim>\<open>request\<close> does to the outside, in order: it asks the
  \<^verbatim>\<open>AkeneoAuth\<close> instance for the grant, sends a request through the transport,
  waits.
\<close>

datatype ('p, 't) event =
    GetGrant
  | Send "('p, 't) request_config"
  | Sleep int

text \<open>
  The \<^verbatim>\<open>do ... while\<close> loop of \<^verbatim>\<open>request\<close>. The transport is \<open>axios\<close>:
  the outcome of the attempt with index \<open>retryCount\<close>, an error (\<open>Inl\<close>) or the
  data of the response. \<^verbatim>\<open>calculateDelay\<close> is imported from \<^verbatim>\<open>lib/utils\<close> and
  enters as the parameter \<open>calculateDelay\<close>. The loop returns what the call
  returns or throws, with the events so far.
\<close>

function request_loop ::
  "(nat \<Rightarrow> AkeneoRetryConfig \<Rightarrow> int) \<Rightarrow> (nat \<Rightarrow> ('p, 't) request_config \<Rightarrow> 'd js_error + 'r) \<Rightarrow>
   ('d js_error \<Rightarrow> 'x) \<Rightarrow> ('p, 't) request_config \<Rightarrow> AkeneoRetryConfig \<Rightarrow> nat \<Rightarrow>
   ('p, 't) event list \<Rightarrow> (('d, 'x) thrown + 'r) \<times> ('p, 't) event list" where
  "request_loop calculateDelay axios mk_data requestConfig retryConfig retryCount tr =
     (let tr1 = (if retryCount > 0
                 then tr @ [Sleep (calculateDelay retryCount retryConfig)] else tr);
          tr2 = tr1 @ [Send requestConfig]
      in case axios retryCount requestConfig of
           Inr response_data \<Rightarrow> (Inr response_data, tr2)
         | Inl error \<Rightarrow>
             if isRetryableError error
             then if int (retryCount + 1) \<le> maxRetries retryConfig
                  then request_loop calculateDelay axios mk_data requestConfig retryConfig
                         (retryCount + 1) tr2
                  else (Inl (transformError mk_data error), tr2)
             else (Inl (transformError mk_data error), tr2))"
  by pat_completeness auto
termination
  by (relation "measure (\<lambda>(c, a, m, q, rc, n, tr). nat (maxRetries rc + 1 - int n))") auto

declare request_loop.simps [simp del]

text \<open>
  \<^verbatim>\<open>request\<close>: the request options are built once, before the loop, from the grant
  that \<^verbatim>\<open>this.auth.getClientGrant()\<close> resolves to; when that call rejects, the
  rejection leaves \<^verbatim>\<open>request\<close> as it is.
\<close>

definition request ::
  "(nat \<Rightarrow> AkeneoRetryConfig \<Rightarrow> int) \<Rightarrow> (nat \<Rightarrow> ('p, 't) request_config \<Rightarrow> 'd js_error + 'r) \<Rightarrow>
   ('d js_error \<Rightarrow> 'x) \<Rightarrow> (('d, 'x) thrown + AkeneoGrant) \<Rightarrow> string \<Rightarrow> header_map \<Rightarrow>
   AkeneoRetryConfig \<Rightarrow> ('p, 't) FetchOptions \<Rightarrow> (('d, 'x) thrown + 'r) \<times> ('p, 't) event list" where
  "request calculateDelay axios mk_data getClientGrant endpoint defaults this_retry options =
     (case getClientGrant of
        Inl e \<Rightarrow> (Inl e, [GetGrant])
      | Inr grant \<Rightarrow>
          request_loop calculateDelay axios mk_data
            (getRequestOptions endpoint defaults grant options)
            (getRetryConfig this_retry (retry options)) 0 [GetGrant])"

text \<open>The number of attempts of a call: the requests it sent.\<close>

fun is_Send :: "('p, 't) event \<Rightarrow> bool" where
  "is_Send (Send c) = True"
| "is_Send e = False"

definition attempts :: "('p, 't) event list \<Rightarrow> nat" where
  "attempts tr = length (filter is_Send tr)"

text \<open>
  The events of one turn of the loop with counter \<open>n\<close>: the delay, on every turn but
  the first, then the request. And the events of the turns \<open>n + 1\<close> to \<open>m\<close>.
\<close>

definition turn_events ::
  "(nat \<Rightarrow> AkeneoRetryConfig \<Rightarrow> int) \<Rightarrow> AkeneoRetryConfig \<Rightarrow> ('p, 't) request_config \<Rightarrow> nat \<Rightarrow>
   ('p, 't) event list" where
  "turn_events calculateDelay rc cfg n =
     (if n > 0 then [Sleep (calculateDelay n rc)] else []) @ [Send cfg]"

definition retry_events ::
  "(nat \<Rightarrow> AkeneoRetryConfig \<Rightarrow> int) \<Rightarrow> AkeneoRetryConfig \<Rightarrow> ('p, 't) request_config \<Rightarrow> nat \<Rightarrow> nat \<Rightarrow>
   ('p, 't) event list" where
  "retry_events calculateDelay rc cfg n m =
     concat (map (\<lambda>i. [Sleep (calculateDelay i rc), Send cfg]) [Suc n ..< Suc m])"

text \<open>
  The reading of a trace in which the grant is fetched again for every attempt: each
  request is sent after a \<open>GetGrant\<close> that no other request has used. \<open>fresh\<close> says
  that such a \<open>GetGrant\<close> has been seen.
\<close>

fun grant_per_attempt :: "bool \<Rightarrow> ('p, 't) event list \<Rightarrow> bool" where
  "grant_per_attempt fresh [] = True"
| "grant_per_attempt fresh (GetGrant # tr) = grant_per_attempt True tr"
| "grant_per_attempt fresh (Send c # tr) = (fresh \<and> grant_per_attempt False tr)"
| "grant_per_attempt fresh (Sleep d # tr) = grant_per_attempt fresh tr"


section \<open>Following the pages of a result\<close>

text \<open>
  \<^verbatim>\<open>Results\<close>: every link is present or not, and a link is its \<^verbatim>\<open>href\<close>.
\<close>

record Links =
  link_self :: "string option"
  link_first :: "string option"
  link_previous :: "string option"
  link_next :: "string option"

record 'a Results =
  links :: Links
  current_page :: "int option"
  items_count :: "int option"
  items :: "'a list"

text \<open>
  \<^verbatim>\<open>followLink\<close> is \<^verbatim>\<open>this.request({ method: 'GET', url })\<close>: what the call
  returns or throws.
\<close>

definition followLink ::
  "(nat \<Rightarrow> AkeneoRetryConfig \<Rightarrow> int) \<Rightarrow> (nat \<Rightarrow> ('p, 't) request_config \<Rightarrow> 'd js_error + 'r) \<Rightarrow>
   ('d js_error \<Rightarrow> 'x) \<Rightarrow> (('d, 'x) thrown + AkeneoGrant) \<Rightarrow> string \<Rightarrow> header_map \<Rightarrow>
   AkeneoRetryConfig \<Rightarrow> string \<Rightarrow> ('d, 'x) thrown + 'r" where
  "followLink calculateDelay axios mk_data getClientGrant endpoint defaults this_retry u =
     fst (request calculateDelay axios mk_data getClientGrant endpoint defaults this_retry
            \<lparr>path = None, url = Some u, headers = None, http_method = GET, params = None,
             data = None, retry = None\<rparr>)"

text \<open>
  The \<^verbatim>\<open>while (nextHref)\<close> loop of \<^verbatim>\<open>appendRemainingPages\<close>. The objects live
  in a store, a function from references to \<^verbatim>\<open>Results\<close>; \<open>response\<close> is the
  reference \<^verbatim>\<open>options.response\<close>. \<open>follow n href\<close> is the outcome of the
  \<open>n\<close>-th call of \<^verbatim>\<open>followLink\<close>, a thrown value or a fresh page. A missing or empty
  \<^verbatim>\<open>href\<close> is falsy and ends the loop. The loop runs as long as the server hands out
  a next link, so it is a partial function: \<open>None\<close> is a loop that never ends. The
  result is the thrown value, if any, and the store.
\<close>

partial_function (option) pages_loop ::
  "(nat \<Rightarrow> string \<Rightarrow> 'e + 'a Results) \<Rightarrow> (nat \<Rightarrow> 'a Results) \<Rightarrow> nat \<Rightarrow> nat \<Rightarrow> string option \<Rightarrow>
   ('e option \<times> (nat \<Rightarrow> 'a Results)) option" where
  "pages_loop follow store response n nextHref =
     (case nextHref of
        None \<Rightarrow> Some (None, store)
      | Some href \<Rightarrow>
          if href = [] then Some (None, store)
          else (case follow n href of
                  Inl e \<Rightarrow> Some (Some e, store)
                | Inr nextResponse \<Rightarrow>
                    pages_loop follow
                      (store(response := (store response)
                         \<lparr>items := items (store response) @ items nextResponse\<rparr>))
                      response (Suc n) (link_next (links nextResponse))))"

text \<open>
  \<^verbatim>\<open>appendRemainingPages\<close>: the loop, then the assignment of
  \<^verbatim>\<open>{ first: options.response._links.first }\<close> to \<^verbatim>\<open>options.response._links\<close>.
  A value thrown in the loop leaves before the assignment.
\<close>

definition appendRemainingPages ::
  "(nat \<Rightarrow> string \<Rightarrow> 'e + 'a Results) \<Rightarrow> (nat \<Rightarrow> 'a Results) \<Rightarrow> nat \<Rightarrow>
   ('e option \<times> (nat \<Rightarrow> 'a Results)) option" where
  "appendRemainingPages follow store response =
     (case pages_loop follow store response 0 (link_next (links (store response))) of
        None \<Rightarrow> None
      | Some (Some e, store') \<Rightarrow> Some (Some e, store')
      | Some (None, store') \<Rightarrow>
          Some (None,
                store'(response := (store' response)
                  \<lparr>links := \<lparr>link_self = None,
                             link_first = link_first (links (store' response)),
                             link_previous = None,
                             link_next = None\<rparr>\<rparr>)))"

text \<open>
  A finite chain of pages behind a next link: the link is falsy and no page follows, or it
  is truthy, the \<open>n\<close>-th call of \<open>follow\<close> answers with the first page, and the rest
  of the pages is the chain behind that page's next link.
\<close>

fun page_chain ::
  "(nat \<Rightarrow> string \<Rightarrow> 'e + 'a Results) \<Rightarrow> nat \<Rightarrow> string option \<Rightarrow> 'a Results list \<Rightarrow> bool" where
  "page_chain follow n nextHref [] =
     (case nextHref of None \<Rightarrow> True | Some href \<Rightarrow> href = [])"
| "page_chain follow n nextHref (p # ps) =
     (case nextHref of
        None \<Rightarrow> False
      | Some href \<Rightarrow>
          href \<noteq> [] \<and> follow n href = Inr p \<and> page_chain follow (Suc n) (link_next (links p)) ps)"


section \<open>The credential exchange\<close>

record AkeneoGrantResponse =
  access_token :: string
  refresh_token :: "string option"
  expires_in :: int

record AkeneoAuthApiConfig =
  endpoint :: string
  username :: string
  password :: string
  clientId :: string
  clientSecret :: string
  timeoutMs :: "int option"

definition DEFAULT_REQUEST_TIMEOUT_MS :: int where
  "DEFAULT_REQUEST_TIMEOUT_MS = 5000"

record grant_body =
  grant_type :: string
  body_username :: string
  body_password :: string

record auth_request =
  ar_url :: string
  ar_method :: http_method
  ar_data :: grant_body
  ar_headers :: "(string \<times> string option) list"
  ar_timeout :: int

text \<open>
  \<^verbatim>\<open>AkeneoAuthApi.post\<close>. \<^verbatim>\<open>base64EncodeForBasicAuth\<close> comes from
  \<^verbatim>\<open>auth/utils\<close> and enters as the parameter \<open>b64\<close>. The timeout is
  \<^verbatim>\<open>this.config.timeoutMs || DEFAULT_REQUEST_TIMEOUT_MS\<close>, so a timeout of 0 gives the
  default. An error of the transport is converted when it carries the axios marker and
  thrown as it is otherwise.
\<close>

definition post ::
  "(string \<Rightarrow> string \<Rightarrow> string) \<Rightarrow> (auth_request \<Rightarrow> 'd js_error + AkeneoGrantResponse) \<Rightarrow>
   ('d js_error \<Rightarrow> 'x) \<Rightarrow> AkeneoAuthApiConfig \<Rightarrow> string \<Rightarrow> grant_body \<Rightarrow>
   ('d, 'x) thrown + AkeneoGrantResponse" where
  "post b64 axios mk_data config p body =
     (case axios
        \<lparr>ar_url = (endpoint config @ ''/api/oauth/v1'') @ p,
         ar_method = POST,
         ar_data = body,
         ar_headers =
           [(''Authorization'', Some (''Basic '' @ b64 (clientId config) (clientSecret config))),
            (''Content-Type'', Some ''application/json''),
            (''User-Agent'', None)],
         ar_timeout = (case timeoutMs config of
                         None \<Rightarrow> DEFAULT_REQUEST_TIMEOUT_MS
                       | Some t \<Rightarrow> if t = 0 then DEFAULT_REQUEST_TIMEOUT_MS else t)\<rparr> of
        Inr response_data \<Rightarrow> Inr response_data
      | Inl error \<Rightarrow>
          if isAxiosError error then Inl (Akeneo (fromAxiosError mk_data error))
          else Inl (Raw error))"

text \<open>\<^verbatim>\<open>AkeneoAuthApi.getClientGrant\<close>: the password grant posted to \<^verbatim>\<open>/token\<close>.\<close>

definition api_getClientGrant ::
  "(string \<Rightarrow> string \<Rightarrow> string) \<Rightarrow> (auth_request \<Rightarrow> 'd js_error + AkeneoGrantResponse) \<Rightarrow>
   ('d js_error \<Rightarrow> 'x) \<Rightarrow> AkeneoAuthApiConfig \<Rightarrow> ('d, 'x) thrown + AkeneoGrantResponse" where
  "api_getClientGrant b64 axios mk_data config =
     post b64 axios mk_data config ''/token''
       \<lparr>grant_type = ''password'', body_username = username config,
        body_password = password config\<rparr>"

section \<open>The token cache\<close>

text \<open>
  Modelled from the spec: the class \<^verbatim>\<open>AkeneoGrant\<close> is not among the sources (its test
  is). The constructor copies the access token, keeps a refresh token that is not blank,
  and derives \<^verbatim>\<open>expiresAt\<close> as the time of construction plus \<^verbatim>\<open>expires_in\<close>
  seconds; times are in milliseconds.
\<close>

definition new_AkeneoGrant :: "int \<Rightarrow> AkeneoGrantResponse \<Rightarrow> AkeneoGrant" where
  "new_AkeneoGrant now_ms r =
     \<lparr>accessToken = access_token r,
      refreshToken = (case refresh_token r of
                        None \<Rightarrow> None
                      | Some t \<Rightarrow> if t = [] then None else Some t),
      expiresIn = expires_in r,
      expiresAt = now_ms + expires_in r * 1000\<rparr>"

text \<open>
  Modelled from the spec: \<^verbatim>\<open>AkeneoGrant.expiresWithin\<close> is not among the sources. The
  grant expires within \<open>secs\<close> seconds of now.
\<close>

definition expiresWithin :: "AkeneoGrant \<Rightarrow> int \<Rightarrow> int \<Rightarrow> bool" where
  "expiresWithin g secs now_ms = (expiresAt g \<le> now_ms + secs * 1000)"

text \<open>
  \<^verbatim>\<open>AkeneoAuth.getClientGrant\<close> is an async method with two \<^verbatim>\<open>await\<close>s, and many
  calls can be in flight on one instance. The model is the event loop of the runtime
  around the instance: promises that are pending or settled, the calls that wait on a
  pending promise in the order in which they began to wait, and the queue of jobs, each the
  rest of a call after an \<^verbatim>\<open>await\<close>. An \<^verbatim>\<open>await\<close> of a settled promise puts the
  rest of the call at the end of the queue; it never runs on at once.
\<close>

datatype 'e promise = Pending | Fulfilled "AkeneoGrantResponse option" | Rejected 'e

text \<open>Where a suspended call goes on: after line 84, or after the \<^verbatim>\<open>await\<close> of line 91.\<close>

datatype resume_point = AfterGrantPromise | AfterExchange

datatype 'e call_result = Resolved AkeneoGrant | Failed 'e

record 'e AkeneoAuth =
  refreshIfWithinSecs :: int
  grant :: "AkeneoGrant option"
  grantPromise :: nat
  promises :: "nat \<Rightarrow> 'e promise"
  allocated :: nat
  waiting :: "(nat \<times> nat \<times> resume_point) list"
  jobs :: "(nat \<times> resume_point \<times> 'e promise) list"
  results :: "nat \<rightharpoonup> 'e call_result"
  exchanges :: nat
  now :: int
  calls :: nat

text \<open>
  A new instance, created at time \<open>t0\<close>: \<^verbatim>\<open>refreshIfWithinSecs\<close> is the value of
  the configuration or the default 1800, there is no grant, and
  \<^verbatim>\<open>grantPromise = Promise.resolve()\<close> is the promise 0, fulfilled with \<^verbatim>\<open>undefined\<close>.
\<close>

definition new_AkeneoAuth :: "int option \<Rightarrow> int \<Rightarrow> 'e AkeneoAuth" where
  "new_AkeneoAuth config_secs t0 =
     \<lparr>refreshIfWithinSecs = (case config_secs of None \<Rightarrow> 1800 | Some secs \<Rightarrow> secs),
      grant = None, grantPromise = 0,
      promises = (\<lambda>p. Pending)(0 := Fulfilled None), allocated = 1,
      waiting = [], jobs = [], results = Map.empty, exchanges = 0, now = t0, calls = 0\<rparr>"

text \<open>\<^verbatim>\<open>await p\<close> in call \<open>c\<close>, with \<open>k\<close> the place to go on from.\<close>

definition await :: "nat \<Rightarrow> nat \<Rightarrow> resume_point \<Rightarrow> 'e AkeneoAuth \<Rightarrow> 'e AkeneoAuth" where
  "await p c k w =
     (if promises w p = Pending then w\<lparr>waiting := waiting w @ [(p, c, k)]\<rparr>
      else w\<lparr>jobs := jobs w @ [(c, k, promises w p)]\<rparr>)"

text \<open>
  Lines 90 and 91 up to the \<^verbatim>\<open>await\<close>: \<^verbatim>\<open>this.api.getClientGrant()\<close> is invoked
  and returns a new pending promise, which is stored in \<^verbatim>\<open>this.grantPromise\<close> and
  awaited. \<open>exchanges\<close> counts the invocations.
\<close>

definition start_refresh :: "nat \<Rightarrow> 'e AkeneoAuth \<Rightarrow> 'e AkeneoAuth" where
  "start_refresh c w =
     (let p = allocated w
      in await p c AfterExchange
           (w\<lparr>promises := (promises w)(p := Pending), allocated := Suc p,
              exchanges := Suc (exchanges w), grantPromise := p\<rparr>))"

text \<open>
  The rest of call \<open>c\<close> from \<open>k\<close> on, with the settled promise it awaited. An
  \<^verbatim>\<open>await\<close> of a rejected promise throws, and the call rejects with that value. A job
  never holds a pending promise, and the exchange never fulfils with \<^verbatim>\<open>undefined\<close>:
  these cases have no successor (\<open>None\<close>).
\<close>

definition resume :: "nat \<Rightarrow> resume_point \<Rightarrow> 'e promise \<Rightarrow> 'e AkeneoAuth \<Rightarrow> 'e AkeneoAuth option" where
  "resume c k outcome w =
     (case outcome of
        Pending \<Rightarrow> None
      | Rejected e \<Rightarrow> Some (w\<lparr>results := (results w)(c \<mapsto> Failed e)\<rparr>)
      | Fulfilled v \<Rightarrow>
          (case k of
             AfterGrantPromise \<Rightarrow>
               (case grant w of
                  None \<Rightarrow> Some (start_refresh c w)
                | Some g \<Rightarrow>
                    if \<not> expiresWithin g (refreshIfWithinSecs w) (now w)
                    then Some (w\<lparr>results := (results w)(c \<mapsto> Resolved g)\<rparr>)
                    else Some (start_refresh c w))
           | AfterExchange \<Rightarrow>
               (case v of
                  None \<Rightarrow> None
                | Some r \<Rightarrow>
                    Some (w\<lparr>grant := Some (new_AkeneoGrant (now w) r),
                            results := (results w)(c \<mapsto> Resolved (new_AkeneoGrant (now w) r))\<rparr>))))"

text \<open>
  The steps of the event loop: a caller invokes \<^verbatim>\<open>getClientGrant()\<close>, which runs up to
  the \<^verbatim>\<open>await\<close> of line 84; the first job of the queue runs; the exchange behind a
  pending promise completes, with an error or a response, which happens only when no job is
  left, and moves the calls waiting on it to the queue in their order; time passes.
\<close>

datatype 'e auth_event =
    Call
  | RunJob
  | Settle nat "'e + AkeneoGrantResponse"
  | Advance int

definition settle :: "nat \<Rightarrow> 'e promise \<Rightarrow> 'e AkeneoAuth \<Rightarrow> 'e AkeneoAuth" where
  "settle p st w =
     w\<lparr>promises := (promises w)(p := st),
       jobs := map (\<lambda>(q, c, k). (c, k, st)) (filter (\<lambda>(q, c, k). q = p) (waiting w)),
       waiting := filter (\<lambda>(q, c, k). q \<noteq> p) (waiting w)\<rparr>"

fun step :: "'e auth_event \<Rightarrow> 'e AkeneoAuth \<Rightarrow> 'e AkeneoAuth option" where
  "step Call w =
     Some (await (grantPromise w) (calls w) AfterGrantPromise (w\<lparr>calls := Suc (calls w)\<rparr>))"
| "step RunJob w =
     (case jobs w of
        [] \<Rightarrow> None
      | (c, k, outcome) # js \<Rightarrow> resume c k outcome (w\<lparr>jobs := js\<rparr>))"
| "step (Settle p outcome) w =
     (if jobs w = [] \<and> 0 < p \<and> p < allocated w \<and> promises w p = Pending
      then Some (settle p (case outcome of Inl e \<Rightarrow> Rejected e | Inr r \<Rightarrow> Fulfilled (Some r)) w)
      else None)"
| "step (Advance dt) w = (if 0 \<le> dt then Some (w\<lparr>now := now w + dt\<rparr>) else None)"

fun run :: "'e auth_event list \<Rightarrow> 'e AkeneoAuth \<Rightarrow> 'e AkeneoAuth option" where
  "run [] w = Some w"
| "run (ev # evs) w = (case step ev w of None \<Rightarrow> None | Some w' \<Rightarrow> run evs w')"


section \<open>Sample values\<close>

text \<open>Concrete inputs on which the theorems below are run.\<close>

definition sample_error :: "int \<Rightarrow> (string \<times> string) list \<Rightarrow> unit js_error" where
  "sample_error code hs =
     \<lparr>isAxiosError = True, message = ''Request failed'', error_request = True,
      error_response = Some \<lparr>status = Some code, response_headers = hs\<rparr>, payload = ()\<rparr>"

definition sample_raw_error :: "unit js_error" where
  "sample_raw_error =
     \<lparr>isAxiosError = False, message = ''test'', error_request = False,
      error_response = None, payload = ()\<rparr>"

definition sample_grant :: AkeneoGrant where
  "sample_grant =
     \<lparr>accessToken = ''test-access-token'', refreshToken = None, expiresIn = 172800,
      expiresAt = 172800000\<rparr>"

definition sample_options :: "(unit, unit) FetchOptions" where
  "sample_options =
     \<lparr>path = Some ''/products'', url = None, headers = None, http_method = GET, params = None,
      data = None, retry = None\<rparr>"

definition sample_retry :: "int \<Rightarrow> AkeneoRetryConfig" where
  "sample_retry k = \<lparr>delayMs = 300, maxRetries = k, max429Retries = Some 4, jitter = None\<rparr>"

definition sample_delay :: "nat \<Rightarrow> AkeneoRetryConfig \<Rightarrow> int" where
  "sample_delay n rc = delayMs rc * 2 ^ (n - 1)"

definition failing_transport ::
  "unit js_error \<Rightarrow> nat \<Rightarrow> (unit, unit) request_config \<Rightarrow> unit js_error + string" where
  "failing_transport e i c = Inl e"

definition recovering_transport ::
  "unit js_error \<Rightarrow> nat \<Rightarrow> nat \<Rightarrow> (unit, unit) request_config \<Rightarrow> unit js_error + string" where
  "recovering_transport e n i c = (if i < n then Inl e else Inr ''success'')"

definition failing_exchange :: "unit js_error \<Rightarrow> auth_request \<Rightarrow> unit js_error + AkeneoGrantResponse" where
  "failing_exchange e q = Inl e"

definition sample_config :: AkeneoAuthApiConfig where
  "sample_config =
     \<lparr>endpoint = ''https://test-endpoint'', username = ''test-username'',
      password = ''test-password'', clientId = ''test-client-id'',
      clientSecret = ''test-client-secret'', timeoutMs = Some 1000\<rparr>"

definition sample_b64 :: "string \<Rightarrow> string \<Rightarrow> string" where
  "sample_b64 a b = a @ '':'' @ b"

definition sample_body :: grant_body where
  "sample_body =
     \<lparr>grant_type = ''password'', body_username = ''test-username'',
      body_password = ''test-password''\<rparr>"

definition intruding_options :: "(unit, unit) FetchOptions" where
  "intruding_options =
     sample_options\<lparr>headers := Some [''Authorization'' \<mapsto> HStr ''Basic intruder'',
                                      ''Content-Type'' \<mapsto> HStr ''text/plain'']\<rparr>"

definition sample_mk_data :: "unit js_error \<Rightarrow> unit" where
  "sample_mk_data e = ()"

definition sample_base :: string where
  "sample_base = ''https://test-endpoint/api/rest/v1''"

definition sample_page :: "int \<Rightarrow> string option \<Rightarrow> int list \<Rightarrow> int Results" where
  "sample_page pg nxt its =
     \<lparr>links = \<lparr>link_self = Some ''/products?page=self'', link_first = Some ''/products?page=1'',
                link_previous = None, link_next = nxt\<rparr>,
      current_page = Some pg, items_count = Some 5, items = its\<rparr>"

definition sample_follow :: "nat \<Rightarrow> string \<Rightarrow> string + int Results" where
  "sample_follow n href =
     (if href = ''/products?page=2'' then Inr (sample_page 2 (Some ''/products?page=3'') [3, 4])
      else if href = ''/products?page=3'' then Inr (sample_page 3 None [5])
      else Inl ''not found'')"

definition sample_store :: "nat \<Rightarrow> int Results" where
  "sample_store r = sample_page 1 (Some ''/products?page=2'') [1, 2]"

definition sample_merged :: "nat \<Rightarrow> int Results" where
  "sample_merged =
     sample_store(0 := \<lparr>links = \<lparr>link_self = None, link_first = Some ''/products?page=1'',
                                  link_previous = None, link_next = None\<rparr>,
                        current_page = Some 1, items_count = Some 5, items = [1, 2, 3, 4, 5]\<rparr>)"

definition answering_exchange :: "AkeneoGrantResponse \<Rightarrow> auth_request \<Rightarrow> unit js_error + AkeneoGrantResponse" where
  "answering_exchange r q = Inr r"

definition sample_response :: "string \<Rightarrow> AkeneoGrantResponse" where
  "sample_response t = \<lparr>access_token = t, refresh_token = None, expires_in = 172800\<rparr>"

definition exchange_outcome ::
  "(auth_request \<Rightarrow> unit js_error + AkeneoGrantResponse) \<Rightarrow> (unit, unit) thrown + AkeneoGrantResponse" where
  "exchange_outcome axios = api_getClientGrant sample_b64 axios sample_mk_data sample_config"

text \<open>
  What is observed of a run: the number of exchanges invoked, the cached grant, and the
  results of the calls \<open>cs\<close>.
\<close>

definition observe :: "nat list \<Rightarrow> 'e AkeneoAuth option \<Rightarrow> (nat \<times> AkeneoGrant option \<times> 'e call_result option list) option" where
  "observe cs w = map_option (\<lambda>w. (exchanges w, grant w, map (results w) cs)) w"

section \<open>Properties of the retry loop\<close>

lemma attempts_Nil [simp]: "attempts [] = 0"
  by (simp add: attempts_def)

lemma attempts_append [simp]: "attempts (xs @ ys) = attempts xs + attempts ys"
  by (simp add: attempts_def)

lemma attempts_Cons_Send [simp]: "attempts (Send c # tr) = Suc (attempts tr)"
  by (simp add: attempts_def)

lemma attempts_Cons_Sleep [simp]: "attempts (Sleep d # tr) = attempts tr"
  by (simp add: attempts_def)

lemma attempts_Cons_GetGrant [simp]: "attempts (GetGrant # tr) = attempts tr"
  by (simp add: attempts_def)

lemma attempts_turn_events [simp]: "attempts (turn_events calc rc cfg n) = 1"
  by (simp add: turn_events_def)

lemma retry_events_Nil: "m \<le> n \<Longrightarrow> retry_events calc rc cfg n m = []"
  by (simp add: retry_events_def)

lemma retry_events_Cons:
  "n < m \<Longrightarrow>
   retry_events calc rc cfg n m =
     Sleep (calc (Suc n) rc) # Send cfg # retry_events calc rc cfg (Suc n) m"
  unfolding retry_events_def by (subst upt_conv_Cons) simp_all

lemma attempts_retry_events: "attempts (retry_events calc rc cfg n m) = m - n"
proof (induction "m - n" arbitrary: n)
  case 0
  then show ?case by (simp add: retry_events_Nil)
next
  case (Suc d)
  then have "n < m" by linarith
  from retry_events_Cons[OF this, of calc rc cfg] Suc show ?case
    by simp
qed

text \<open>One turn of the loop, by the outcome of the attempt.\<close>

lemma request_loop_success:
  assumes "axios n cfg = Inr r"
  shows "request_loop calc axios mk cfg rc n tr = (Inr r, tr @ turn_events calc rc cfg n)"
  using assms
  by (subst request_loop.simps [of calc axios mk cfg rc n tr]) (simp add: Let_def turn_events_def)

lemma request_loop_terminal:
  assumes "axios n cfg = Inl e" "\<not> isRetryableError e"
  shows "request_loop calc axios mk cfg rc n tr =
           (Inl (transformError mk e), tr @ turn_events calc rc cfg n)"
  using assms
  by (subst request_loop.simps [of calc axios mk cfg rc n tr]) (simp add: Let_def turn_events_def)

lemma request_loop_last:
  assumes "axios n cfg = Inl e" "isRetryableError e" "\<not> int (n + 1) \<le> maxRetries rc"
  shows "request_loop calc axios mk cfg rc n tr =
           (Inl (transformError mk e), tr @ turn_events calc rc cfg n)"
  using assms
  by (subst request_loop.simps [of calc axios mk cfg rc n tr]) (simp add: Let_def turn_events_def)

lemma request_loop_retry:
  assumes "axios n cfg = Inl e" "isRetryableError e" "int (n + 1) \<le> maxRetries rc"
  shows "request_loop calc axios mk cfg rc n tr =
           request_loop calc axios mk cfg rc (Suc n) (tr @ turn_events calc rc cfg n)"
  using assms
  by (subst request_loop.simps [of calc axios mk cfg rc n tr]) (simp add: Let_def turn_events_def)

text \<open>
  When every attempt fails with a retryable error, the loop runs up to the counter
  \<open>maxRetries\<close> and throws the error of that attempt.
\<close>

lemma request_loop_exhaust:
  assumes ax: "\<And>i. axios i cfg = Inl (err i)"
    and re: "\<And>i. isRetryableError (err i)"
  shows "int n \<le> maxRetries rc \<Longrightarrow>
         request_loop calc axios mk cfg rc n tr =
           (Inl (transformError mk (err (nat (maxRetries rc)))),
            tr @ turn_events calc rc cfg n @ retry_events calc rc cfg n (nat (maxRetries rc)))"
proof (induction "nat (maxRetries rc) - n" arbitrary: n tr)
  case 0
  then have n: "n = nat (maxRetries rc)" by linarith
  then have "\<not> int (n + 1) \<le> maxRetries rc" using 0 by linarith
  from request_loop_last[where axios=axios and n=n and cfg=cfg and e="err n"
      and calc=calc and mk=mk and tr=tr, OF ax re this]
  show ?case using n by (simp add: retry_events_Nil)
next
  case (Suc m)
  then have lt: "int (n + 1) \<le> maxRetries rc" by linarith
  have m: "m = nat (maxRetries rc) - Suc n" using Suc.hyps(2) by linarith
  have le: "int (Suc n) \<le> maxRetries rc" using lt by simp
  have nm: "n < nat (maxRetries rc)" using lt by linarith
  have "request_loop calc axios mk cfg rc n tr =
        request_loop calc axios mk cfg rc (Suc n) (tr @ turn_events calc rc cfg n)"
    by (rule request_loop_retry[where axios=axios and n=n and cfg=cfg and e="err n", OF ax re lt])
  also have "\<dots> = (Inl (transformError mk (err (nat (maxRetries rc)))),
            (tr @ turn_events calc rc cfg n) @ turn_events calc rc cfg (Suc n)
               @ retry_events calc rc cfg (Suc n) (nat (maxRetries rc)))"
    by (rule Suc.hyps(1)[OF m le])
  also have "(tr @ turn_events calc rc cfg n) @ turn_events calc rc cfg (Suc n)
               @ retry_events calc rc cfg (Suc n) (nat (maxRetries rc))
           = tr @ turn_events calc rc cfg n @ retry_events calc rc cfg n (nat (maxRetries rc))"
    by (simp add: retry_events_Cons[OF nm] turn_events_def)
  finally show ?case .
qed

lemma isRetryableError_500:
  assumes "isAxiosError e" "error_request e" "error_response e = Some r" "status r = Some 500"
  shows "isRetryableError e"
  using assms by (simp add: isRetryableError_def RETRYABLE_STATUS_CODES_def)

text \<open>
  C3. With \<open>maxRetries = k\<close>, \<open>k\<close> a natural number, and a transport whose every attempt
  fails with status 500, \<^verbatim>\<open>request\<close> makes exactly \<open>k + 1\<close> attempts and then throws
  the failure of the last attempt, converted to an \<^verbatim>\<open>AkeneoError\<close>.
\<close>

theorem request_always_500:
  assumes ax: "\<And>i c. axios i c = Inl (err i)"
    and e500: "\<And>i. isAxiosError (err i) \<and> error_request (err i) \<and>
                 (\<exists>r. error_response (err i) = Some r \<and> status r = Some 500)"
    and k: "maxRetries (getRetryConfig this_retry (retry options)) = k" "0 \<le> k"
  shows "fst (request calc axios mk (Inr g) base defaults this_retry options)
           = Inl (Akeneo (fromAxiosError mk (err (nat k))))
       \<and> int (attempts (snd (request calc axios mk (Inr g) base defaults this_retry options)))
           = k + 1"
proof -
  let ?rc = "getRetryConfig this_retry (retry options)"
  let ?cfg = "getRequestOptions base defaults g options"
  have re: "isRetryableError (err i)" for i
    using e500[of i] by (auto intro: isRetryableError_500)
  have le: "int 0 \<le> maxRetries ?rc" using k by simp
  have loop: "request_loop calc axios mk ?cfg ?rc 0 [GetGrant] =
      (Inl (transformError mk (err (nat k))),
       [GetGrant] @ turn_events calc ?rc ?cfg 0 @ retry_events calc ?rc ?cfg 0 (nat k))"
    using request_loop_exhaust[where axios=axios and cfg="?cfg" and err=err and rc="?rc"
        and n=0 and calc=calc and mk=mk and tr="[GetGrant]", OF ax re le] k(1)
    by simp
  have tr: "transformError mk (err (nat k)) = Akeneo (fromAxiosError mk (err (nat k)))"
    using e500[of "nat k"] by (simp add: transformError_def)
  show ?thesis
    using k(2) by (simp add: request_def loop tr attempts_retry_events)
qed


theorem request_always_500_witness:
  "fst (request sample_delay (failing_transport (sample_error 500 [])) sample_mk_data
          (Inr sample_grant) sample_base Map.empty (sample_retry 2) sample_options)
     = Inl (Akeneo \<lparr>ae_message = ''Request failed'', ae_data = (), ae_status = Some 500,
                     isAkeneoError = True\<rparr>)
   \<and> attempts (snd (request sample_delay (failing_transport (sample_error 500 []))
          sample_mk_data (Inr sample_grant) sample_base Map.empty (sample_retry 2)
          sample_options)) = 3"
  using request_always_500 [of "failing_transport (sample_error 500 [])"
      "\<lambda>i. sample_error 500 []" "sample_retry 2" sample_options 2 sample_delay
      sample_mk_data sample_grant sample_base Map.empty]
  by (simp add: sample_error_def sample_retry_def sample_options_def getRetryConfig_def
      fromAxiosError_def failing_transport_def sample_mk_data_def)


lemma request_loop_stop:
  assumes "(\<exists>r. axios n cfg = Inr r)
         \<or> (\<exists>e. axios n cfg = Inl e \<and> (isRetryableError e \<longrightarrow> \<not> int (n + 1) \<le> maxRetries rc))"
  shows "snd (request_loop calc axios mk cfg rc n tr) = tr @ turn_events calc rc cfg n"
proof -
  from assms consider
      (ok) r where "axios n cfg = Inr r"
    | (terminal) e where "axios n cfg = Inl e" "\<not> isRetryableError e"
    | (last) e where "axios n cfg = Inl e" "isRetryableError e" "\<not> int (n + 1) \<le> maxRetries rc"
    by blast
  then show ?thesis
  proof cases
    case ok
    then show ?thesis by (simp add: request_loop_success)
  next
    case terminal
    then show ?thesis by (simp add: request_loop_terminal)
  next
    case last
    then show ?thesis by (simp add: request_loop_last)
  qed
qed

lemma turn_retry_events:
  "n < m \<Longrightarrow> turn_events calc rc cfg (Suc n) @ retry_events calc rc cfg (Suc n) m
     = retry_events calc rc cfg n m"
  by (simp add: retry_events_Cons turn_events_def)

lemma request_loop_trace:
  "\<exists>m\<ge>n. snd (request_loop calc axios mk cfg rc n tr)
         = tr @ turn_events calc rc cfg n @ retry_events calc rc cfg n m"
proof (induction "nat (maxRetries rc - int n)" arbitrary: n tr)
  case 0
  then have "\<not> int (n + 1) \<le> maxRetries rc" by linarith
  then have "(\<exists>r. axios n cfg = Inr r)
         \<or> (\<exists>e. axios n cfg = Inl e \<and> (isRetryableError e \<longrightarrow> \<not> int (n + 1) \<le> maxRetries rc))"
    by (cases "axios n cfg") auto
  from request_loop_stop[where axios=axios and n=n and cfg=cfg and rc=rc and calc=calc
      and mk=mk and tr=tr, OF this]
  have "n \<le> n \<and> snd (request_loop calc axios mk cfg rc n tr)
         = tr @ turn_events calc rc cfg n @ retry_events calc rc cfg n n"
    by (simp add: retry_events_Nil)
  then show ?case by blast
next
  case (Suc d)
  show ?case
  proof (cases "\<exists>e. axios n cfg = Inl e \<and> isRetryableError e \<and> int (n + 1) \<le> maxRetries rc")
    case True
    then obtain e where e: "axios n cfg = Inl e" "isRetryableError e" "int (n + 1) \<le> maxRetries rc"
      by blast
    have d: "d = nat (maxRetries rc - int (Suc n))" using Suc.hyps(2) by linarith
    from Suc.hyps(1)[OF d, of "tr @ turn_events calc rc cfg n"]
    obtain m where m: "Suc n \<le> m"
      "snd (request_loop calc axios mk cfg rc (Suc n) (tr @ turn_events calc rc cfg n))
         = (tr @ turn_events calc rc cfg n) @ turn_events calc rc cfg (Suc n)
             @ retry_events calc rc cfg (Suc n) m" by blast
    have nm: "n < m" using m(1) by simp
    have "snd (request_loop calc axios mk cfg rc n tr)
         = snd (request_loop calc axios mk cfg rc (Suc n) (tr @ turn_events calc rc cfg n))"
      by (simp add: request_loop_retry[where axios=axios and n=n and cfg=cfg and e=e, OF e])
    also have "\<dots> = tr @ turn_events calc rc cfg n @ retry_events calc rc cfg n m"
      using m(2) turn_retry_events[OF nm, of calc rc cfg] by simp
    finally have "n \<le> m \<and> snd (request_loop calc axios mk cfg rc n tr)
         = tr @ turn_events calc rc cfg n @ retry_events calc rc cfg n m"
      using nm by simp
    then show ?thesis by blast
  next
    case False
    then have "(\<exists>r. axios n cfg = Inr r)
         \<or> (\<exists>e. axios n cfg = Inl e \<and> (isRetryableError e \<longrightarrow> \<not> int (n + 1) \<le> maxRetries rc))"
      by (cases "axios n cfg") auto
    from request_loop_stop[where axios=axios and n=n and cfg=cfg and rc=rc and calc=calc
      and mk=mk and tr=tr, OF this]
    have "n \<le> n \<and> snd (request_loop calc axios mk cfg rc n tr)
         = tr @ turn_events calc rc cfg n @ retry_events calc rc cfg n n"
      by (simp add: retry_events_Nil)
    then show ?thesis by blast
  qed
qed

lemma request_loop_constant_error:
  assumes ax: "\<And>i. axios i cfg = Inl e" and re: "isRetryableError e"
  shows "fst (request_loop calc axios mk cfg rc n tr) = Inl (transformError mk e)"
proof (induction "nat (maxRetries rc - int n)" arbitrary: n tr)
  case 0
  then have "\<not> int (n + 1) \<le> maxRetries rc" by linarith
  from request_loop_last[where axios=axios and n=n and cfg=cfg and e=e and calc=calc
      and mk=mk and rc=rc and tr=tr, OF ax re this]
  show ?case by simp
next
  case (Suc d)
  show ?case
  proof (cases "int (n + 1) \<le> maxRetries rc")
    case True
    have d: "d = nat (maxRetries rc - int (Suc n))" using Suc.hyps(2) by linarith
    from request_loop_retry[where axios=axios and n=n and cfg=cfg and e=e and calc=calc
        and mk=mk and rc=rc and tr=tr, OF ax re True]
      Suc.hyps(1)[OF d, of "tr @ turn_events calc rc cfg n"]
    show ?thesis by simp
  next
    case False
    from request_loop_last[where axios=axios and n=n and cfg=cfg and e=e and calc=calc
        and mk=mk and rc=rc and tr=tr, OF ax re False]
    show ?thesis by simp
  qed
qed

lemma isRetryableError_sample_500 [simp]: "isRetryableError (sample_error 500 hs)"
  by (simp add: sample_error_def isRetryableError_def RETRYABLE_STATUS_CODES_def)

text \<open>
  C8. The classification of a caught error, in the order in which the code tests it: an
  error without the axios marker is retryable; an axios error that lacks the request or
  the response is retryable; an axios error with both is retryable exactly when the status
  of its response is one of 500, 501, 502, 503, 504. In particular a response with status
  400 is never retried: whatever the retry configuration, \<^verbatim>\<open>request\<close> sends one
  request and throws the converted error.
\<close>

theorem error_classification:
  "(\<not> isAxiosError e \<longrightarrow> isRetryableError e)
 \<and> (isAxiosError e \<and> (\<not> error_request e \<or> error_response e = None) \<longrightarrow> isRetryableError e)
 \<and> (isAxiosError e \<and> error_request e \<and> error_response e = Some r \<longrightarrow>
      isRetryableError e = (status r \<in> {Some 500, Some 501, Some 502, Some 503, Some 504}))
 \<and> (isAxiosError e \<and> error_request e \<and> error_response e = Some r \<and> status r = Some 400
      \<and> axios 0 (getRequestOptions base defaults g options) = Inl e \<longrightarrow>
      request calc axios mk (Inr g) base defaults this_retry options
        = (Inl (Akeneo (fromAxiosError mk e)),
           [GetGrant, Send (getRequestOptions base defaults g options)]))"
proof (intro conjI impI)
  show "isRetryableError e" if "\<not> isAxiosError e"
    using that by (simp add: isRetryableError_def)
  show "isRetryableError e" if "isAxiosError e \<and> (\<not> error_request e \<or> error_response e = None)"
    using that by (auto simp: isRetryableError_def)
  show "isRetryableError e = (status r \<in> {Some 500, Some 501, Some 502, Some 503, Some 504})"
    if "isAxiosError e \<and> error_request e \<and> error_response e = Some r"
    using that by (cases "status r") (auto simp: isRetryableError_def RETRYABLE_STATUS_CODES_def)
  show "request calc axios mk (Inr g) base defaults this_retry options
        = (Inl (Akeneo (fromAxiosError mk e)),
           [GetGrant, Send (getRequestOptions base defaults g options)])"
    if h: "isAxiosError e \<and> error_request e \<and> error_response e = Some r \<and> status r = Some 400
      \<and> axios 0 (getRequestOptions base defaults g options) = Inl e"
  proof -
    have nr: "\<not> isRetryableError e"
      using h by (simp add: isRetryableError_def RETRYABLE_STATUS_CODES_def)
    have ax: "axios 0 (getRequestOptions base defaults g options) = Inl e" using h by simp
    from request_loop_terminal[where axios=axios and n=0
        and cfg="getRequestOptions base defaults g options" and e=e and calc=calc and mk=mk
        and rc="getRetryConfig this_retry (retry options)" and tr="[GetGrant]", OF ax nr]
    show ?thesis using h by (simp add: request_def turn_events_def transformError_def)
  qed
qed

theorem error_classification_witness:
  "isRetryableError sample_raw_error
   \<and> isRetryableError ((sample_error 400 [])\<lparr>error_request := False\<rparr>)
   \<and> isRetryableError (sample_error 503 [])
   \<and> \<not> isRetryableError (sample_error 404 [])
   \<and> request sample_delay (failing_transport (sample_error 400 [])) sample_mk_data
         (Inr sample_grant) sample_base Map.empty (sample_retry 4) sample_options
       = (Inl (Akeneo \<lparr>ae_message = ''Request failed'', ae_data = (), ae_status = Some 400,
                         isAkeneoError = True\<rparr>),
          [GetGrant, Send (getRequestOptions sample_base Map.empty sample_grant sample_options)])"
  using error_classification [where e = sample_raw_error]
    error_classification [where e = "(sample_error 400 [])\<lparr>error_request := False\<rparr>"]
    error_classification [where e = "sample_error 503 []"
      and r = "\<lparr>status = Some 503, response_headers = []\<rparr>"]
    error_classification [where e = "sample_error 404 []"
      and r = "\<lparr>status = Some 404, response_headers = []\<rparr>"]
    error_classification [where e = "sample_error 400 []"
      and r = "\<lparr>status = Some 400, response_headers = []\<rparr>"
      and axios = "failing_transport (sample_error 400 [])" and base = sample_base
      and defaults = Map.empty and g = sample_grant and options = sample_options
      and calc = sample_delay and mk = sample_mk_data and this_retry = "sample_retry 4"]
  by (simp add: sample_raw_error_def sample_error_def failing_transport_def
      fromAxiosError_def sample_mk_data_def)

text \<open>
  C10. \<^verbatim>\<open>transformError\<close> returns an error without the axios marker as it is and
  converts an error with the marker to an \<^verbatim>\<open>AkeneoError\<close>. So \<^verbatim>\<open>request\<close>, when
  every attempt fails with such an error, throws that raw value, and
  \<^verbatim>\<open>AkeneoAuthApi.post\<close> does the same with the error of its transport.
\<close>

theorem transformError_passthrough:
  "(\<not> isAxiosError e \<longrightarrow> transformError mk e = Raw e)
 \<and> (isAxiosError e \<longrightarrow> transformError mk e = Akeneo (fromAxiosError mk e))
 \<and> (\<not> isAxiosError e \<and> (\<forall>i c. axios i c = Inl e) \<longrightarrow>
      fst (request calc axios mk (Inr g) base defaults this_retry options) = Inl (Raw e))
 \<and> (\<not> isAxiosError e \<and> (\<forall>q. auth_axios q = Inl e) \<longrightarrow>
      post b64 auth_axios mk config p body = Inl (Raw e))
 \<and> (isAxiosError e \<and> (\<forall>q. auth_axios q = Inl e) \<longrightarrow>
      post b64 auth_axios mk config p body = Inl (Akeneo (fromAxiosError mk e)))"
proof (intro conjI impI)
  show "transformError mk e = Raw e" if "\<not> isAxiosError e"
    using that by (simp add: transformError_def)
  show "transformError mk e = Akeneo (fromAxiosError mk e)" if "isAxiosError e"
    using that by (simp add: transformError_def)
  show "fst (request calc axios mk (Inr g) base defaults this_retry options) = Inl (Raw e)"
    if h: "\<not> isAxiosError e \<and> (\<forall>i c. axios i c = Inl e)"
  proof -
    have re: "isRetryableError e" using h by (simp add: isRetryableError_def)
    have ax: "axios i (getRequestOptions base defaults g options) = Inl e" for i
      using h by simp
    from request_loop_constant_error[where axios=axios
        and cfg="getRequestOptions base defaults g options" and e=e and calc=calc and mk=mk
        and rc="getRetryConfig this_retry (retry options)" and n=0 and tr="[GetGrant]",
        OF ax re]
    show ?thesis using h by (simp add: request_def transformError_def)
  qed
  show "post b64 auth_axios mk config p body = Inl (Raw e)"
    if "\<not> isAxiosError e \<and> (\<forall>q. auth_axios q = Inl e)"
    using that by (simp add: post_def)
  show "post b64 auth_axios mk config p body = Inl (Akeneo (fromAxiosError mk e))"
    if "isAxiosError e \<and> (\<forall>q. auth_axios q = Inl e)"
    using that by (simp add: post_def)
qed

theorem transformError_passthrough_witness:
  "transformError sample_mk_data sample_raw_error = Raw sample_raw_error
   \<and> transformError sample_mk_data (sample_error 500 [])
       = Akeneo (fromAxiosError sample_mk_data (sample_error 500 []))
   \<and> fst (request sample_delay (failing_transport sample_raw_error) sample_mk_data
         (Inr sample_grant) sample_base Map.empty (sample_retry 2) sample_options)
       = Inl (Raw sample_raw_error)
   \<and> post sample_b64 (failing_exchange sample_raw_error) sample_mk_data sample_config
         ''/token'' sample_body = Inl (Raw sample_raw_error)
   \<and> post sample_b64 (failing_exchange (sample_error 500 [])) sample_mk_data sample_config
         ''/token'' sample_body = Inl (Akeneo (fromAxiosError sample_mk_data (sample_error 500 [])))"
  using transformError_passthrough [where e = sample_raw_error and mk = sample_mk_data
      and axios = "failing_transport sample_raw_error" and calc = sample_delay
      and g = sample_grant and base = sample_base and defaults = Map.empty
      and this_retry = "sample_retry 2" and options = sample_options
      and auth_axios = "failing_exchange sample_raw_error" and ?b64.0 = sample_b64
      and config = sample_config and p = "''/token''" and body = sample_body]
    transformError_passthrough [where e = "sample_error 500 []" and mk = sample_mk_data
      and auth_axios = "failing_exchange (sample_error 500 [])" and ?b64.0 = sample_b64
      and config = sample_config and p = "''/token''" and body = sample_body]
  by (simp add: sample_raw_error_def sample_error_def failing_transport_def
      failing_exchange_def)

text \<open>
  C2. A response with status 429 and the header \<^verbatim>\<open>Retry-After: 2\<close>, under the retry
  configuration \<^verbatim>\<open>{ delayMs: 300, maxRetries: 0, max429Retries: 4 }\<close>, followed by a
  success: \<^verbatim>\<open>request\<close> sends one request, waits for nothing, and throws the converted
  error with status 429. The status 429 is not in \<open>RETRYABLE_STATUS_CODES\<close>, and
  \<^verbatim>\<open>request\<close> reads neither \<^verbatim>\<open>max429Retries\<close> nor the header.
\<close>

theorem request_429_not_retried:
  "request sample_delay (recovering_transport (sample_error 429 [(''Retry-After'', ''2'')]) 1)
     sample_mk_data (Inr sample_grant) sample_base Map.empty (sample_retry 0) sample_options
   = (Inl (Akeneo \<lparr>ae_message = ''Request failed'', ae_data = (), ae_status = Some 429,
                     isAkeneoError = True\<rparr>),
      [GetGrant, Send (getRequestOptions sample_base Map.empty sample_grant sample_options)])"
proof -
  let ?e = "sample_error 429 [(''Retry-After'', ''2'')]"
  let ?ax = "recovering_transport ?e 1"
  let ?cfg = "getRequestOptions sample_base Map.empty sample_grant sample_options"
  have a0: "?ax 0 ?cfg = Inl ?e" by (simp add: recovering_transport_def)
  have nr: "\<not> isRetryableError ?e"
    by (simp add: sample_error_def isRetryableError_def RETRYABLE_STATUS_CODES_def)
  have tr: "transformError sample_mk_data ?e
      = Akeneo \<lparr>ae_message = ''Request failed'', ae_data = (), ae_status = Some 429,
                     isAkeneoError = True\<rparr>"
    by (simp add: transformError_def fromAxiosError_def sample_error_def sample_mk_data_def)
  from request_loop_terminal[where axios="?ax" and n=0 and cfg="?cfg" and e="?e"
      and calc=sample_delay and mk=sample_mk_data
      and rc="getRetryConfig (sample_retry 0) (retry sample_options)" and tr="[GetGrant]",
      OF a0 nr]
  show ?thesis
    by (simp add: request_def turn_events_def tr)
qed

text \<open>Every request that a call of \<^verbatim>\<open>request\<close> sends carries the options built before the loop.\<close>

lemma Send_in_retry_events: "Send c \<in> set (retry_events calc rc cfg n m) \<Longrightarrow> c = cfg"
  by (auto simp: retry_events_def)

lemma request_sends:
  "Send (getRequestOptions base defaults g options)
     \<in> set (snd (request calc axios mk (Inr g) base defaults this_retry options))
   \<and> (\<forall>c. Send c \<in> set (snd (request calc axios mk (Inr g) base defaults this_retry options))
          \<longrightarrow> c = getRequestOptions base defaults g options)"
proof -
  from request_loop_trace[of 0 calc axios mk "getRequestOptions base defaults g options"
      "getRetryConfig this_retry (retry options)" "[GetGrant]"]
  show ?thesis
    by (auto simp: request_def turn_events_def dest: Send_in_retry_events)
qed

lemma getRequestOptions_headers:
  "rc_headers (getRequestOptions base defaults g options) k =
     (case (case headers options of None \<Rightarrow> None | Some h \<Rightarrow> h k) of
        Some v \<Rightarrow> Some v
      | None \<Rightarrow> if k = ''Authorization'' then Some (HStr (''Bearer '' @ accessToken g))
                else defaults k)"
  by (auto simp: getRequestOptions_def request_headers_def map_add_def split: option.splits)

text \<open>
  C5. A call of \<^verbatim>\<open>request\<close> whose grant was obtained sends at least one request, and
  the headers of every request it sends are, key by key: the value the caller supplied for
  the key if there is one; otherwise, for \<^verbatim>\<open>Authorization\<close>, the bearer value built
  from the access token of the grant; otherwise the default of the transport. The caller's
  headers are spread last, so they replace the bearer value and any default.
\<close>

theorem request_sent_headers:
  "Send (getRequestOptions base defaults g options)
     \<in> set (snd (request calc axios mk (Inr g) base defaults this_retry options))
   \<and> (\<forall>c. Send c \<in> set (snd (request calc axios mk (Inr g) base defaults this_retry options))
          \<longrightarrow> rc_headers c k =
               (case (case headers options of None \<Rightarrow> None | Some h \<Rightarrow> h k) of
                  Some v \<Rightarrow> Some v
                | None \<Rightarrow> if k = ''Authorization''
                          then Some (HStr (''Bearer '' @ accessToken g))
                          else defaults k))"
proof (intro conjI allI impI)
  show "Send (getRequestOptions base defaults g options)
     \<in> set (snd (request calc axios mk (Inr g) base defaults this_retry options))"
    using request_sends[of base defaults g options calc axios mk this_retry] by blast
next
  fix c
  assume "Send c \<in> set (snd (request calc axios mk (Inr g) base defaults this_retry options))"
  with request_sends[of base defaults g options calc axios mk this_retry]
  have "c = getRequestOptions base defaults g options" by blast
  then show "rc_headers c k =
               (case (case headers options of None \<Rightarrow> None | Some h \<Rightarrow> h k) of
                  Some v \<Rightarrow> Some v
                | None \<Rightarrow> if k = ''Authorization''
                          then Some (HStr (''Bearer '' @ accessToken g))
                          else defaults k)"
    by (simp only: getRequestOptions_headers)
qed

theorem request_sent_headers_witness:
  "Send (getRequestOptions sample_base Map.empty sample_grant sample_options)
     \<in> set (snd (request sample_delay (recovering_transport (sample_error 500 []) 1)
          sample_mk_data (Inr sample_grant) sample_base Map.empty (sample_retry 1)
          sample_options))
   \<and> rc_headers (getRequestOptions sample_base Map.empty sample_grant sample_options)
       ''Authorization'' = Some (HStr ''Bearer test-access-token'')"
proof -
  note t = request_sent_headers [of sample_base Map.empty sample_grant sample_options
      sample_delay "recovering_transport (sample_error 500 []) 1" sample_mk_data
      "sample_retry 1" "''Authorization''"]
  from t have s: "Send (getRequestOptions sample_base Map.empty sample_grant sample_options)
     \<in> set (snd (request sample_delay (recovering_transport (sample_error 500 []) 1)
          sample_mk_data (Inr sample_grant) sample_base Map.empty (sample_retry 1)
          sample_options))"
    by blast
  from t s have "rc_headers (getRequestOptions sample_base Map.empty sample_grant sample_options)
       ''Authorization''
     = (case (case headers sample_options of None \<Rightarrow> None | Some h \<Rightarrow> h ''Authorization'') of
          Some v \<Rightarrow> Some v
        | None \<Rightarrow> if ''Authorization'' = ''Authorization''
                  then Some (HStr (''Bearer '' @ accessToken sample_grant))
                  else Map.empty ''Authorization'')"
    by blast
  then show ?thesis using s by (simp add: sample_options_def sample_grant_def)
qed

text \<open>
  C5, as stated, fails: a caller that supplies \<^verbatim>\<open>Authorization\<close> and
  \<^verbatim>\<open>Content-Type\<close> has both sent as supplied, and the bearer value is not sent.
\<close>

theorem request_caller_overrides:
  "request sample_delay (recovering_transport (sample_error 500 []) 0) sample_mk_data
       (Inr sample_grant) sample_base Map.empty (sample_retry 0) intruding_options
     = (Inr ''success'',
        [GetGrant, Send (getRequestOptions sample_base Map.empty sample_grant intruding_options)])
   \<and> rc_headers (getRequestOptions sample_base Map.empty sample_grant intruding_options)
       ''Authorization'' = Some (HStr ''Basic intruder'')
   \<and> rc_headers (getRequestOptions sample_base Map.empty sample_grant intruding_options)
       ''Authorization'' \<noteq> Some (HStr (''Bearer '' @ accessToken sample_grant))
   \<and> rc_headers (getRequestOptions sample_base Map.empty sample_grant intruding_options)
       ''Content-Type'' = Some (HStr ''text/plain'')"
proof -
  let ?ax = "recovering_transport (sample_error 500 []) 0"
  let ?cfg = "getRequestOptions sample_base Map.empty sample_grant intruding_options"
  have a0: "?ax 0 ?cfg = Inr ''success''" by (simp add: recovering_transport_def)
  from request_loop_success[where axios="?ax" and n=0 and cfg="?cfg" and r="''success''"
      and calc=sample_delay and mk=sample_mk_data
      and rc="getRetryConfig (sample_retry 0) (retry intruding_options)" and tr="[GetGrant]",
      OF a0]
  have "request sample_delay ?ax sample_mk_data
       (Inr sample_grant) sample_base Map.empty (sample_retry 0) intruding_options
     = (Inr ''success'', [GetGrant, Send ?cfg])"
    by (simp add: request_def turn_events_def)
  moreover have "rc_headers ?cfg ''Authorization'' = Some (HStr ''Basic intruder'')"
    "rc_headers ?cfg ''Authorization'' \<noteq> Some (HStr (''Bearer '' @ accessToken sample_grant))"
    "rc_headers ?cfg ''Content-Type'' = Some (HStr ''text/plain'')"
    by (simp_all add: getRequestOptions_def request_headers_def intruding_options_def
      sample_options_def sample_grant_def)
  ultimately show ?thesis by blast
qed

text \<open>
  C6. The events of one call of \<^verbatim>\<open>request\<close> whose grant was obtained: the grant is
  fetched once, before the first attempt; every attempt sends the same request options,
  built from that grant; every attempt but the first comes right after the delay
  \<open>calculateDelay retryCount retryConfig\<close>.
\<close>

theorem request_single_grant:
  "\<exists>m. snd (request calc axios mk (Inr g) base defaults this_retry options)
        = GetGrant # Send (getRequestOptions base defaults g options)
            # retry_events calc (getRetryConfig this_retry (retry options))
                (getRequestOptions base defaults g options) 0 m"
proof -
  from request_loop_trace[of 0 calc axios mk "getRequestOptions base defaults g options"
      "getRetryConfig this_retry (retry options)" "[GetGrant]"]
  show ?thesis by (auto simp: request_def turn_events_def)
qed

text \<open>
  C6, as stated, fails: with \<^verbatim>\<open>maxRetries = 1\<close>, a first attempt that fails with 500
  and a second one that succeeds, the second request is sent without the grant having been
  fetched again.
\<close>

theorem request_retry_reuses_grant:
  "\<not> grant_per_attempt False
       (snd (request sample_delay (recovering_transport (sample_error 500 []) 1) sample_mk_data
          (Inr sample_grant) sample_base Map.empty (sample_retry 1) sample_options))"
proof -
  let ?ax = "recovering_transport (sample_error 500 []) 1"
  let ?cfg = "getRequestOptions sample_base Map.empty sample_grant sample_options"
  let ?rc = "getRetryConfig (sample_retry 1) (retry sample_options)"
  have a0: "?ax 0 ?cfg = Inl (sample_error 500 [])" by (simp add: recovering_transport_def)
  have a1: "?ax (Suc 0) ?cfg = Inr ''success''" by (simp add: recovering_transport_def)
  have mr: "int (0 + 1) \<le> maxRetries ?rc"
    by (simp add: getRetryConfig_def sample_options_def sample_retry_def)
  have "request_loop sample_delay ?ax sample_mk_data ?cfg ?rc 0 [GetGrant]
      = request_loop sample_delay ?ax sample_mk_data ?cfg ?rc (Suc 0)
          ([GetGrant] @ turn_events sample_delay ?rc ?cfg 0)"
    by (rule request_loop_retry[where axios="?ax" and n=0 and cfg="?cfg"
          and e="sample_error 500 []" and rc="?rc", OF a0 _ mr]) simp
  also have "\<dots> = (Inr ''success'', ([GetGrant] @ turn_events sample_delay ?rc ?cfg 0)
                     @ turn_events sample_delay ?rc ?cfg (Suc 0))"
    by (rule request_loop_success[where axios="?ax" and n="Suc 0" and cfg="?cfg", OF a1])
  finally show ?thesis
    by (simp add: request_def turn_events_def)
qed


section \<open>Properties of the page walker\<close>

text \<open>Along a finite chain the loop ends, and the items of the pages are appended in order.\<close>

lemma pages_loop_chain:
  "page_chain follow n h ps \<Longrightarrow>
   pages_loop follow store r n h
     = Some (None, store(r := (store r)\<lparr>items := items (store r) @ concat (map items ps)\<rparr>))"
proof (induction ps arbitrary: n h store)
  case Nil
  then show ?case
    by (subst pages_loop.simps) (auto split: option.splits)
next
  case (Cons p ps)
  then obtain href where h: "h = Some href" "href \<noteq> []" "follow n href = Inr p"
    and rest: "page_chain follow (Suc n) (link_next (links p)) ps"
    by (auto split: option.splits)
  let ?store = "store(r := (store r)\<lparr>items := items (store r) @ items p\<rparr>)"
  have "pages_loop follow store r n h
      = pages_loop follow ?store r (Suc n) (link_next (links p))"
    using h by (subst pages_loop.simps) simp
  also have "\<dots> = Some (None, ?store(r := (?store r)\<lparr>items := items (?store r) @ concat (map items ps)\<rparr>))"
    by (rule Cons.IH[OF rest])
  also have "?store(r := (?store r)\<lparr>items := items (?store r) @ concat (map items ps)\<rparr>)
      = store(r := (store r)\<lparr>items := items (store r) @ concat (map items (p # ps))\<rparr>)"
    by simp
  finally show ?case .
qed

text \<open>Whatever the loop returns, it has changed the items of \<open>response\<close> and nothing else.\<close>

lemma pages_loop_frame:
  assumes "pages_loop follow store r n h = Some y"
  shows "\<exists>its. snd y = store(r := (store r)\<lparr>items := its\<rparr>)"
  using assms
proof (induction follow store r n h y rule: pages_loop.raw_induct [rotated, consumes 1])
  case (1 loop follow store r n h y)
  have same: "\<exists>its. snd y = store(r := (store r)\<lparr>items := its\<rparr>)" if "snd y = store"
  proof -
    from that have "snd y = store(r := (store r)\<lparr>items := items (store r)\<rparr>)" by simp
    then show ?thesis ..
  qed
  show ?case
  proof (cases h)
    case None
    with 1(2) have "snd y = store" by auto
    then show ?thesis by (rule same)
  next
    case (Some href)
    show ?thesis
    proof (cases "href = []")
      case True
      with 1(2) Some have "snd y = store" by auto
      then show ?thesis by (rule same)
    next
      case False
      show ?thesis
      proof (cases "follow n href")
        case (Inl e)
        with 1(2) Some False have "snd y = store" by auto
        then show ?thesis by (rule same)
      next
        case (Inr p)
        let ?store = "store(r := (store r)\<lparr>items := items (store r) @ items p\<rparr>)"
        from 1(2) Some False Inr
        have "loop follow ?store r (Suc n) (link_next (links p)) = Some y" by simp
        from 1(1)[OF this] obtain its where "snd y = ?store(r := (?store r)\<lparr>items := its\<rparr>)"
          by blast
        then have "snd y = store(r := (store r)\<lparr>items := its\<rparr>)" by simp
        then show ?thesis ..
      qed
    qed
  qed
qed

lemma sample_chain:
  "page_chain sample_follow 0 (link_next (links (sample_store 0)))
     [sample_page 2 (Some ''/products?page=3'') [3, 4], sample_page 3 None [5]]"
  by (simp add: sample_follow_def sample_store_def sample_page_def)

text \<open>
  C7. When a finite chain of pages hangs on the next link of the initial result,
  \<^verbatim>\<open>appendRemainingPages\<close> returns, the items of the result are the items of the
  initial page followed by the items of every page of the chain, in the order of the
  pages, and its links hold the first link of the initial page and no other. A link is
  followed when its \<^verbatim>\<open>href\<close> is a non-empty string.
\<close>

theorem appendRemainingPages_concat:
  assumes "page_chain follow 0 (link_next (links (store response))) ps"
  shows "\<exists>store'. appendRemainingPages follow store response = Some (None, store')
       \<and> items (store' response) = items (store response) @ concat (map items ps)
       \<and> links (store' response)
           = \<lparr>link_self = None, link_first = link_first (links (store response)),
              link_previous = None, link_next = None\<rparr>"
  using pages_loop_chain[OF assms, of store response]
  by (simp add: appendRemainingPages_def)

theorem appendRemainingPages_concat_witness:
  "\<exists>store'. appendRemainingPages sample_follow sample_store 0 = Some (None, store')
     \<and> items (store' 0) = [1, 2, 3, 4, 5]
     \<and> links (store' 0) = \<lparr>link_self = None, link_first = Some ''/products?page=1'',
                             link_previous = None, link_next = None\<rparr>"
  using appendRemainingPages_concat [of sample_follow sample_store 0
      "[sample_page 2 (Some ''/products?page=3'') [3, 4], sample_page 3 None [5]]"]
    sample_chain
  by (simp add: sample_store_def sample_page_def)

lemma appendRemainingPages_updates:
  assumes a: "appendRemainingPages follow store response = Some (res, store')"
  shows "\<exists>its ls. store' = store(response := (store response)\<lparr>links := ls, items := its\<rparr>)"
proof -
  from a obtain y
    where y: "pages_loop follow store response 0 (link_next (links (store response))) = Some y"
    by (auto simp: appendRemainingPages_def split: option.splits)
  from pages_loop_frame[OF y] obtain its
    where its: "snd y = store(response := (store response)\<lparr>items := its\<rparr>)" by blast
  show ?thesis
  proof (cases "fst y")
    case None
    with a y its have "store' = store(response := (store response)
        \<lparr>links := \<lparr>link_self = None, link_first = link_first (links (store response)),
              link_previous = None, link_next = None\<rparr>, items := its\<rparr>)"
      by (cases y) (auto simp: appendRemainingPages_def)
    then show ?thesis by blast
  next
    case (Some e)
    with a y its have "store' = store(response := (store response)
        \<lparr>links := links (store response), items := its\<rparr>)"
      by (cases y) (auto simp: appendRemainingPages_def)
    then show ?thesis by blast
  qed
qed

lemma sample_run: "appendRemainingPages sample_follow sample_store 0 = Some (None, sample_merged)"
  using pages_loop_chain [OF sample_chain, of sample_store 0]
  by (simp add: appendRemainingPages_def sample_merged_def sample_store_def sample_page_def)

text \<open>
  C9. Whatever \<^verbatim>\<open>appendRemainingPages\<close> returns or throws, the object behind the
  reference \<open>response\<close> is the one passed in with new items and new links:
  \<^verbatim>\<open>current_page\<close> and \<^verbatim>\<open>items_count\<close> are those of the first page, and no other
  object of the store has changed. Along a finite chain of pages the call returns.
\<close>

theorem appendRemainingPages_frame:
  "(appendRemainingPages follow store response = Some (res, store') \<longrightarrow>
      current_page (store' response) = current_page (store response)
    \<and> items_count (store' response) = items_count (store response)
    \<and> (\<forall>r. r \<noteq> response \<longrightarrow> store' r = store r)
    \<and> (\<exists>its ls. store' = store(response := (store response)\<lparr>links := ls, items := its\<rparr>)))
 \<and> (page_chain follow 0 (link_next (links (store response))) ps \<longrightarrow>
      (\<exists>store''. appendRemainingPages follow store response = Some (None, store'')))"
proof (rule conjI)
  show "appendRemainingPages follow store response = Some (res, store') \<longrightarrow>
      current_page (store' response) = current_page (store response)
    \<and> items_count (store' response) = items_count (store response)
    \<and> (\<forall>r. r \<noteq> response \<longrightarrow> store' r = store r)
    \<and> (\<exists>its ls. store' = store(response := (store response)\<lparr>links := ls, items := its\<rparr>))"
  proof (rule impI)
    assume "appendRemainingPages follow store response = Some (res, store')"
    from appendRemainingPages_updates[OF this] obtain its ls
      where st: "store' = store(response := (store response)\<lparr>links := ls, items := its\<rparr>)"
      by blast
    then show "current_page (store' response) = current_page (store response)
      \<and> items_count (store' response) = items_count (store response)
      \<and> (\<forall>r. r \<noteq> response \<longrightarrow> store' r = store r)
      \<and> (\<exists>its ls. store' = store(response := (store response)\<lparr>links := ls, items := its\<rparr>))"
      by auto
  qed
  show "page_chain follow 0 (link_next (links (store response))) ps \<longrightarrow>
      (\<exists>store''. appendRemainingPages follow store response = Some (None, store''))"
  proof (rule impI)
    assume "page_chain follow 0 (link_next (links (store response))) ps"
    from pages_loop_chain[OF this, of store response]
    show "\<exists>store''. appendRemainingPages follow store response = Some (None, store'')"
      by (simp add: appendRemainingPages_def)
  qed
qed

theorem appendRemainingPages_frame_witness:
  "appendRemainingPages sample_follow sample_store 0 = Some (None, sample_merged)
   \<and> current_page (sample_merged 0) = Some 1
   \<and> items_count (sample_merged 0) = Some 5
   \<and> sample_merged 1 = sample_store 1"
  using appendRemainingPages_frame [of sample_follow sample_store 0 None sample_merged
      "[sample_page 2 (Some ''/products?page=3'') [3, 4], sample_page 3 None [5]]"]
    sample_run
  by (simp add: sample_store_def sample_page_def)

section \<open>Properties of the token cache\<close>

lemmas auth_defs = new_AkeneoAuth_def await_def resume_def start_refresh_def settle_def
  observe_def exchange_outcome_def api_getClientGrant_def post_def answering_exchange_def
  failing_exchange_def sample_response_def new_AkeneoGrant_def expiresWithin_def

text \<open>
  C1. Two calls of \<^verbatim>\<open>getClientGrant()\<close> issued one after the other, before any job
  runs, on a new instance: both await the promise that is already fulfilled, both find no
  grant when they go on, and each invokes the exchange. Two exchanges are invoked, and the
  calls resolve to two grants.
\<close>

theorem getClientGrant_simultaneous_calls:
  "observe [0, 1]
     (run [Call, Call, RunJob, RunJob,
           Settle 1 (exchange_outcome (answering_exchange (sample_response ''token-1''))), RunJob,
           Settle 2 (exchange_outcome (answering_exchange (sample_response ''token-2''))), RunJob]
        (new_AkeneoAuth None 0))
   = Some (2, Some (new_AkeneoGrant 0 (sample_response ''token-2'')),
           [Some (Resolved (new_AkeneoGrant 0 (sample_response ''token-1''))),
            Some (Resolved (new_AkeneoGrant 0 (sample_response ''token-2'')))])"
  by (simp add: auth_defs)

text \<open>
  C4. A grant is cached and has expired; the refresh that the next call starts fails, with
  a second call waiting on it. Both calls reject with the error and the cached grant is
  unchanged. A call issued after that awaits the same rejected promise and rejects with
  the stored error; no third exchange is invoked.
\<close>

theorem getClientGrant_failure_is_kept:
  "observe [0, 1, 2, 3]
     (run [Call, RunJob,
           Settle 1 (exchange_outcome (answering_exchange (sample_response ''token-1''))), RunJob,
           Advance 172800000,
           Call, RunJob, Call,
           Settle 2 (exchange_outcome (failing_exchange (sample_error 500 []))), RunJob, RunJob,
           Call, RunJob]
        (new_AkeneoAuth None 0))
   = Some (2, Some (new_AkeneoGrant 0 (sample_response ''token-1'')),
           [Some (Resolved (new_AkeneoGrant 0 (sample_response ''token-1''))),
            Some (Failed (Akeneo (fromAxiosError sample_mk_data (sample_error 500 [])))),
            Some (Failed (Akeneo (fromAxiosError sample_mk_data (sample_error 500 [])))),
            Some (Failed (Akeneo (fromAxiosError sample_mk_data (sample_error 500 []))))])"
  by (simp add: auth_defs sample_error_def)

text \<open>
  Once \<^verbatim>\<open>grantPromise\<close> is a rejected promise, a call rejects with the stored error
  and leaves the instance as it was: no later call can start a refresh.
\<close>

lemma rejected_grantPromise_stays:
  assumes "promises w (grantPromise w) = Rejected e" "jobs w = []"
  shows "run [Call, RunJob] w
       = Some (w\<lparr>calls := Suc (calls w), results := (results w)(calls w \<mapsto> Failed e)\<rparr>)"
  using assms by (simp add: await_def resume_def)

end
